theory Spec2Isabelle
  imports Complex_Main
begin

section \<open>Transport channel: \<^verbatim>\<open>EnhancedSocketService\<close>\<close>

text \<open>
  The service of \<^verbatim>\<open>src/services/enhancedSocketService.js\<close>, as explicit state
  passing. The JavaScript objects the service only talks to are kept as the trace of
  the calls made on them:
  \<^item> the socket.io socket is the list of \<^verbatim>\<open>socket.emit(event, data)\<close> calls made on it;
  \<^item> a listener is known by its identity (a JavaScript \<^verbatim>\<open>Set\<close> compares functions by
    identity); invoking it is recorded in \<open>calls\<close>, and whether it throws on a payload
    is given by a parameter \<open>thr\<close>. Listeners do not register or remove listeners
    while they run (in this repository that is done by React effects only, never by
    a handler).
  Payloads are of an arbitrary type \<open>'d\<close>: the service never looks inside them except
  in its console output, which is left out. (The console output of \<^verbatim>\<open>emitEvent\<close> reads
  \<^verbatim>\<open>data.callId\<close> for the \<^verbatim>\<open>webrtc\<close> events; every caller has read that field itself
  before, so the payload is an object there.)
\<close>

type_synonym event = string
type_synonym callback = nat

datatype exn = ListenerError callback | TypeError

text \<open>The options object passed to \<^verbatim>\<open>io(url, options)\<close>.\<close>

record io_options =
  auth :: string
  transports :: "string list"
  timeout :: nat
  reconnection :: bool
  reconnectionAttempts :: nat
  reconnectionDelay :: nat
  reconnectionDelayMax :: nat
  forceNew :: bool
  autoConnect :: bool

record 'd sock =
  sent :: "(event \<times> 'd) list"
  options :: io_options

record 'd service =
  socket :: "'d sock option"
  isConnected :: bool
  isConnecting :: bool
  reconnectAttempts :: nat
  eventListeners :: "event \<rightharpoonup> callback list"
  messageQueue :: "(event \<times> 'd) list"
  storedWebRTCEvents :: "event \<rightharpoonup> 'd list"
  heartbeatInterval :: "nat option"
  authToken :: "string option"
  maxReconnectAttempts :: nat
  reconnectDelay :: nat
  calls :: "(callback \<times> 'd) list"

text \<open>The constructor. \<^verbatim>\<open>maxReconnectAttempts\<close> and \<^verbatim>\<open>reconnectDelay\<close> are set there
  and read nowhere else.\<close>

definition constructor :: "'d service" where
  "constructor =
     \<lparr>socket = None, isConnected = False, isConnecting = False, reconnectAttempts = 0,
      eventListeners = Map.empty, messageQueue = [], storedWebRTCEvents = Map.empty,
      heartbeatInterval = None, authToken = None, maxReconnectAttempts = 5,
      reconnectDelay = 1000, calls = []\<rparr>"

text \<open>\<^verbatim>\<open>String.prototype.includes\<close>.\<close>

fun str_includes :: "string \<Rightarrow> string \<Rightarrow> bool" where
  "str_includes [] sub = (sub = [])"
| "str_includes (c # cs) sub = (take (length sub) (c # cs) = sub \<or> str_includes cs sub)"

subsection \<open>Fan-out to listeners\<close>

text \<open>One \<^verbatim>\<open>callback(data)\<close>: the invocation is recorded, and the call either returns or
  throws.\<close>

definition invoke ::
  "(callback \<Rightarrow> 'd \<Rightarrow> bool) \<Rightarrow> callback \<Rightarrow> 'd \<Rightarrow> (callback \<times> 'd) list
     \<Rightarrow> (callback \<times> 'd) list \<times> exn option" where
  "invoke thr cb d tr = (tr @ [(cb, d)], if thr cb d then Some (ListenerError cb) else None)"

text \<open>\<^verbatim>\<open>listeners.forEach(callback => { try { callback(data) } catch (error) { console.error(...) } })\<close>:
  the \<^verbatim>\<open>catch\<close> logs and the loop goes on.\<close>

fun forEach_listener ::
  "(callback \<Rightarrow> 'd \<Rightarrow> bool) \<Rightarrow> callback list \<Rightarrow> 'd \<Rightarrow> (callback \<times> 'd) list
     \<Rightarrow> (callback \<times> 'd) list \<times> exn option" where
  "forEach_listener thr [] d tr = (tr, None)"
| "forEach_listener thr (cb # cbs) d tr =
     (case invoke thr cb d tr of
        (tr', Some err) \<Rightarrow> forEach_listener thr cbs d tr'
      | (tr', None) \<Rightarrow> forEach_listener thr cbs d tr')"

definition emitEvent ::
  "(callback \<Rightarrow> 'd \<Rightarrow> bool) \<Rightarrow> 'd service \<Rightarrow> event \<Rightarrow> 'd \<Rightarrow> 'd service \<times> exn option" where
  "emitEvent thr s ev d =
     (case eventListeners s ev of
        Some listeners \<Rightarrow>
          (case forEach_listener thr listeners d (calls s) of
             (tr', x) \<Rightarrow> (s\<lparr>calls := tr'\<rparr>, x))
      | None \<Rightarrow> (s, None))"

subsection \<open>Registration and the stored signalling events\<close>

text \<open>\<^verbatim>\<open>storeWebRTCEvent\<close>: push on the array kept under the event type.\<close>

definition storeWebRTCEvent :: "'d service \<Rightarrow> event \<Rightarrow> 'd \<Rightarrow> 'd service" where
  "storeWebRTCEvent s eventType d =
     s\<lparr>storedWebRTCEvents := (storedWebRTCEvents s)
        (eventType \<mapsto> (case storedWebRTCEvents s eventType of None \<Rightarrow> [] | Some ds \<Rightarrow> ds) @ [d])\<rparr>"

text \<open>\<^verbatim>\<open>storedEvents.forEach(eventData => this.emitEvent(eventType, eventData))\<close>: an
  exception of \<^verbatim>\<open>emitEvent\<close> would leave the loop.\<close>

fun reemit ::
  "(callback \<Rightarrow> 'd \<Rightarrow> bool) \<Rightarrow> 'd service \<Rightarrow> event \<Rightarrow> 'd list \<Rightarrow> 'd service \<times> exn option" where
  "reemit thr s eventType [] = (s, None)"
| "reemit thr s eventType (d # ds) =
     (case emitEvent thr s eventType d of
        (s', Some x) \<Rightarrow> (s', Some x)
      | (s', None) \<Rightarrow> reemit thr s' eventType ds)"

definition processStoredWebRTCEvents ::
  "(callback \<Rightarrow> 'd \<Rightarrow> bool) \<Rightarrow> 'd service \<Rightarrow> event \<Rightarrow> 'd service \<times> exn option" where
  "processStoredWebRTCEvents thr s eventType =
     (case storedWebRTCEvents s eventType of
        Some storedEvents \<Rightarrow>
          (case reemit thr s eventType storedEvents of
             (s', Some x) \<Rightarrow> (s', Some x)
           | (s', None) \<Rightarrow> (s'\<lparr>storedWebRTCEvents := (storedWebRTCEvents s')(eventType := None)\<rparr>, None))
      | None \<Rightarrow> (s, None))"

text \<open>\<^verbatim>\<open>Set.prototype.add\<close> on the insertion-ordered set of listeners.\<close>

definition set_add :: "callback list \<Rightarrow> callback \<Rightarrow> callback list" where
  "set_add cbs cb = (if cb \<in> set cbs then cbs else cbs @ [cb])"

definition on ::
  "(callback \<Rightarrow> 'd \<Rightarrow> bool) \<Rightarrow> 'd service \<Rightarrow> event \<Rightarrow> callback \<Rightarrow> 'd service \<times> exn option" where
  "on thr s ev cb =
     (let s1 = (case eventListeners s ev of
                  None \<Rightarrow> s\<lparr>eventListeners := (eventListeners s)(ev \<mapsto> [])\<rparr>
                | Some _ \<Rightarrow> s);
          s2 = s1\<lparr>eventListeners := (eventListeners s1)
                  (ev \<mapsto> set_add (case eventListeners s1 ev of None \<Rightarrow> [] | Some cbs \<Rightarrow> cbs) cb)\<rparr>
      in if str_includes ev ''webrtc'' then processStoredWebRTCEvents thr s2 ev else (s2, None))"

text \<open>\<^verbatim>\<open>off(event, callback)\<close>; \<open>None\<close> is the call without a callback.\<close>

definition off :: "'d service \<Rightarrow> event \<Rightarrow> callback option \<Rightarrow> 'd service" where
  "off s ev cbo =
     (case eventListeners s ev of
        Some listeners \<Rightarrow>
          (case cbo of
             Some cb \<Rightarrow>
               (let listeners' = removeAll cb listeners
                in if length listeners' = 0
                   then s\<lparr>eventListeners := (eventListeners s)(ev := None)\<rparr>
                   else s\<lparr>eventListeners := (eventListeners s)(ev \<mapsto> listeners')\<rparr>)
           | None \<Rightarrow> s\<lparr>eventListeners := (eventListeners s)(ev := None)\<rparr>)
      | None \<Rightarrow> s)"

subsection \<open>Sending\<close>

definition emit :: "'d service \<Rightarrow> event \<Rightarrow> 'd \<Rightarrow> 'd service" where
  "emit s ev d =
     (if \<not> isConnected s then s\<lparr>messageQueue := messageQueue s @ [(ev, d)]\<rparr>
      else (case socket s of
              Some k \<Rightarrow> s\<lparr>socket := Some (k\<lparr>sent := sent k @ [(ev, d)]\<rparr>)\<rparr>
            | None \<Rightarrow> s))"

text \<open>\<^verbatim>\<open>while (this.messageQueue.length > 0) { const {event, data} = this.messageQueue.shift(); this.emit(event, data) }\<close>.
  Run while not connected, \<^verbatim>\<open>emit\<close> puts the message back and the loop does not end:
  the model is a partial function, \<open>None\<close> when the loop does not return.\<close>

partial_function (option) processMessageQueue :: "'d service \<Rightarrow> 'd service option" where
  "processMessageQueue s =
     (case messageQueue s of
        [] \<Rightarrow> Some s
      | m # rest \<Rightarrow> processMessageQueue (emit (s\<lparr>messageQueue := rest\<rparr>) (fst m) (snd m)))"

definition startHeartbeat :: "'d service \<Rightarrow> nat \<Rightarrow> 'd service" where
  "startHeartbeat s interval = s\<lparr>heartbeatInterval := Some interval\<rparr>"

definition stopHeartbeat :: "'d service \<Rightarrow> 'd service" where
  "stopHeartbeat s = s\<lparr>heartbeatInterval := None\<rparr>"

subsection \<open>Connecting and the socket's life-cycle handlers\<close>

text \<open>The options \<^verbatim>\<open>connect(token)\<close> creates its socket with.\<close>

definition io_opts :: "string \<Rightarrow> io_options" where
  "io_opts token =
     \<lparr>auth = token, transports = [''websocket'', ''polling''], timeout = 20000,
      reconnection = True, reconnectionAttempts = 3, reconnectionDelay = 2000,
      reconnectionDelayMax = 10000, forceNew = True, autoConnect = True\<rparr>"

text \<open>\<^verbatim>\<open>connect(token)\<close> up to the creation of the socket; the handlers it registers on
  the socket follow.\<close>

definition connect :: "'d service \<Rightarrow> string \<Rightarrow> 'd service" where
  "connect s token =
     (if isConnecting s then s
      else if isConnected s \<and> authToken s = Some token then s
      else s\<lparr>isConnecting := True, socket := Some \<lparr>sent = [], options = io_opts token\<rparr>,
             authToken := Some token\<rparr>)"

text \<open>The handler of \<^verbatim>\<open>'connect'\<close>. It reads \<^verbatim>\<open>this.socket.id\<close> first, a \<^verbatim>\<open>TypeError\<close>
  without a socket. \<open>d\<close> is the object passed to the \<^verbatim>\<open>connection_success\<close> listeners.\<close>

definition on_connect ::
  "(callback \<Rightarrow> 'd \<Rightarrow> bool) \<Rightarrow> 'd service \<Rightarrow> 'd \<Rightarrow> ('d service \<times> exn option) option" where
  "on_connect thr s d =
     (case socket s of
        None \<Rightarrow> Some (s, Some TypeError)
      | Some k \<Rightarrow>
          (case processMessageQueue
                  (s\<lparr>isConnected := True, isConnecting := False, reconnectAttempts := 0\<rparr>) of
             None \<Rightarrow> None
           | Some s1 \<Rightarrow> Some (emitEvent thr (startHeartbeat s1 30000) ''connection_success'' d)))"




definition on_reconnect ::
  "(callback \<Rightarrow> 'd \<Rightarrow> bool) \<Rightarrow> 'd service \<Rightarrow> nat \<Rightarrow> 'd \<Rightarrow> 'd service \<times> exn option" where
  "on_reconnect thr s attemptNumber d =
     emitEvent thr (s\<lparr>reconnectAttempts := 0, isConnecting := False\<rparr>) ''reconnection_success'' d"







text \<open>\<^verbatim>\<open>disconnect()\<close>.\<close>

definition disconnect :: "'d service \<Rightarrow> 'd service" where
  "disconnect s =
     (case socket s of
        Some k \<Rightarrow>
          (stopHeartbeat s)\<lparr>socket := None, isConnected := False, isConnecting := False,
             eventListeners := Map.empty, messageQueue := [], reconnectAttempts := 0,
             authToken := None\<rparr>
      | None \<Rightarrow> s)"

subsection \<open>The handlers of the wire events (\<^verbatim>\<open>setupEventHandlers\<close>)\<close>

text \<open>\<^verbatim>\<open>!this.eventListeners.has(e) || this.eventListeners.get(e).size === 0\<close>.\<close>

definition no_listeners :: "'d service \<Rightarrow> event \<Rightarrow> bool" where
  "no_listeners s ev = (case eventListeners s ev of None \<Rightarrow> True | Some cbs \<Rightarrow> length cbs = 0)"

text \<open>The handler registered on the socket for the wire event \<open>wire\<close>, applied to a
  payload. Only \<^verbatim>\<open>webrtc:offer\<close> and \<^verbatim>\<open>webrtc:ice-candidate\<close> store the payload when
  nobody listens.\<close>

definition setupEventHandlers ::
  "(callback \<Rightarrow> 'd \<Rightarrow> bool) \<Rightarrow> 'd service \<Rightarrow> event \<Rightarrow> 'd \<Rightarrow> 'd service \<times> exn option" where
  "setupEventHandlers thr s wire d =
     (if wire = ''message_received'' then emitEvent thr s ''message_received'' d
      else if wire = ''message_reaction'' then emitEvent thr s ''message_reaction'' d
      else if wire = ''user_typing'' then emitEvent thr s ''user_typing'' d
      else if wire = ''user_joined_chat'' then emitEvent thr s ''user_joined_chat'' d
      else if wire = ''user_left_chat'' then emitEvent thr s ''user_left_chat'' d
      else if wire = ''call:incoming'' then emitEvent thr s ''call_incoming'' d
      else if wire = ''call:initiated'' then emitEvent thr s ''call_initiated'' d
      else if wire = ''call:accepted'' then emitEvent thr s ''call_accepted'' d
      else if wire = ''call:rejected'' then emitEvent thr s ''call_rejected'' d
      else if wire = ''call:ended'' then emitEvent thr s ''call_ended'' d
      else if wire = ''call:error'' then emitEvent thr s ''call_error'' d
      else if wire = ''webrtc_offer'' then emitEvent thr s ''webrtc_offer'' d
      else if wire = ''webrtc_answer'' then emitEvent thr s ''webrtc_answer'' d
      else if wire = ''webrtc_ice_candidate'' then emitEvent thr s ''webrtc_ice_candidate'' d
      else if wire = ''webrtc:offer'' then
        emitEvent thr
          (if no_listeners s ''webrtc_offer'' then storeWebRTCEvent s ''webrtc_offer'' d else s)
          ''webrtc_offer'' d
      else if wire = ''webrtc:answer'' then emitEvent thr s ''webrtc_answer'' d
      else if wire = ''webrtc:ice-candidate'' then
        emitEvent thr
          (if no_listeners s ''webrtc_ice_candidate''
           then storeWebRTCEvent s ''webrtc_ice_candidate'' d else s)
          ''webrtc_ice_candidate'' d
      else if wire = ''user_online'' then emitEvent thr s ''user_online'' d
      else if wire = ''user_offline'' then emitEvent thr s ''user_offline'' d
      else if wire = ''user_status_update'' then emitEvent thr s ''user_status_update'' d
      else if wire = ''new_message_notification'' then
        emitEvent thr s ''new_message_notification'' d
      else if wire = ''error'' then emitEvent thr s ''socket_error'' d
      else if wire = ''pong'' then emitEvent thr s ''pong'' d
      else (s, None))"

section \<open>The page that owns the active call: \<^verbatim>\<open>EnhancedChatPage\<close>\<close>

text \<open>
  The React state of \<^verbatim>\<open>src/pages/EnhancedChatPage.jsx\<close> that the call handlers read and
  write: \<^verbatim>\<open>activeCall\<close>, \<^verbatim>\<open>incomingCall\<close> and \<^verbatim>\<open>error\<close>. A handler made by
  \<^verbatim>\<open>useCallback\<close> reads \<^verbatim>\<open>activeCall\<close> and \<^verbatim>\<open>incomingCall\<close> from the render that created
  it, not from the state: those values are the parameters \<open>closureActiveCall\<close> and
  \<open>closureIncomingCall\<close>. A functional update (\<^verbatim>\<open>setActiveCall(prev => ...)\<close>) reads the
  state. \<^verbatim>\<open>handleCallInitiate\<close> and \<^verbatim>\<open>handleAcceptIncomingCall\<close> are handed to the buttons
  on every render; \<^verbatim>\<open>handleIncomingCall\<close> is registered as the listener of
  \<^verbatim>\<open>call_incoming\<close> by an effect that depends on \<^verbatim>\<open>user\<close> only, so its closure is the render
  of that registration (at mount: no active call).

  The requests made to the call service are recorded in \<open>requests\<close>; what the service
  answers is a parameter: \<open>Inl\<close> the message of the error it throws, \<open>Inr\<close> its result.
  A missing string field is the empty string, which is falsy as \<^verbatim>\<open>undefined\<close> is.
\<close>

record call =
  call_callId :: string
  call_chatId :: string
  call_type :: string
  call_status :: string
  call_otherUser :: string
  call_isIncoming :: bool
  call_timestamp :: string

datatype request = InitiateCall string string | AcceptCall string | RejectCall string string

record page =
  activeCall :: "call option"
  incomingCall :: "call option"
  error :: "string option"
  requests :: "request list"

text \<open>\<^verbatim>\<open>a || b\<close> on strings.\<close>

definition js_or :: "string \<Rightarrow> string \<Rightarrow> string" where
  "js_or a b = (if a = [] then b else a)"

text \<open>The functional update \<^verbatim>\<open>prev => ({ ...prev, status: 'connected' })\<close>; spreading
  \<^verbatim>\<open>null\<close> gives an object with the status only.\<close>

definition set_connected :: "call option \<Rightarrow> call option" where
  "set_connected prev =
     (case prev of
        Some a \<Rightarrow> Some (a\<lparr>call_status := ''connected''\<rparr>)
      | None \<Rightarrow> Some \<lparr>call_callId = [], call_chatId = [], call_type = [],
                       call_status = ''connected'', call_otherUser = [],
                       call_isIncoming = False, call_timestamp = []\<rparr>)"

definition handleCallInitiate ::
  "(string \<Rightarrow> string \<Rightarrow> string + call) \<Rightarrow> call option \<Rightarrow> page \<Rightarrow> string \<Rightarrow> string \<Rightarrow> page" where
  "handleCallInitiate initiateCall closureActiveCall p chat_id type =
     (case closureActiveCall of
        Some a \<Rightarrow> p\<lparr>error := Some (js_or ''Another call is already active'' ''Failed to initiate call'')\<rparr>
      | None \<Rightarrow>
          (let p1 = p\<lparr>requests := requests p @ [InitiateCall chat_id type]\<rparr>
           in case initiateCall chat_id type of
                Inl message \<Rightarrow> p1\<lparr>error := Some (js_or message ''Failed to initiate call'')\<rparr>
              | Inr result \<Rightarrow>
                  p1\<lparr>activeCall := Some
                       \<lparr>call_callId = call_callId result, call_chatId = call_chatId result,
                        call_type = call_type result, call_status = call_status result,
                        call_otherUser = call_otherUser result, call_isIncoming = False,
                        call_timestamp = []\<rparr>\<rparr>))"

definition handleCallEnd :: "page \<Rightarrow> page" where
  "handleCallEnd p = p\<lparr>activeCall := None, incomingCall := None\<rparr>"

definition handleIncomingCall :: "call option \<Rightarrow> page \<Rightarrow> call \<Rightarrow> page" where
  "handleIncomingCall closureActiveCall p callData =
     (case closureActiveCall of
        Some a \<Rightarrow>
          if call_callId a = call_callId callData
          then p\<lparr>activeCall := set_connected (activeCall p)\<rparr>
          else p\<lparr>incomingCall := Some callData\<rparr>
      | None \<Rightarrow> p\<lparr>incomingCall := Some callData\<rparr>)"


definition handleCallRejected :: "page \<Rightarrow> call \<Rightarrow> page" where
  "handleCallRejected p callData =
     p\<lparr>incomingCall := None, activeCall := None, error := Some ''Call was rejected''\<rparr>"

definition handleCallEnded :: "page \<Rightarrow> call \<Rightarrow> page" where
  "handleCallEnded p callData = p\<lparr>incomingCall := None, activeCall := None\<rparr>"

text \<open>\<open>message\<close> is \<^verbatim>\<open>errorData.message\<close>.\<close>

definition handleCallError :: "page \<Rightarrow> string \<Rightarrow> page" where
  "handleCallError p message =
     p\<lparr>incomingCall := None, activeCall := None,
       error := Some (js_or message ''Call error occurred'')\<rparr>"

text \<open>The object \<^verbatim>\<open>handleAcceptIncomingCall\<close> makes the active call, from the incoming call
  of its closure.\<close>

definition accepted_call :: "call \<Rightarrow> call" where
  "accepted_call i =
     \<lparr>call_callId = call_callId i, call_chatId = call_chatId i, call_type = call_type i,
      call_status = ''connected'', call_otherUser = call_otherUser i, call_isIncoming = False,
      call_timestamp = []\<rparr>"

definition handleAcceptIncomingCall ::
  "(string \<Rightarrow> string + unit) \<Rightarrow> call option \<Rightarrow> call option \<Rightarrow> page \<Rightarrow> page" where
  "handleAcceptIncomingCall acceptCall closureIncomingCall closureActiveCall p =
     (case closureIncomingCall of
        None \<Rightarrow> p
      | Some i \<Rightarrow>
          (case (case closureActiveCall of
                   Some a \<Rightarrow> if call_callId a = call_callId i then Some a else None
                 | None \<Rightarrow> None) of
             Some a \<Rightarrow> p\<lparr>activeCall := set_connected (activeCall p), incomingCall := None\<rparr>
           | None \<Rightarrow>
               (let p1 = p\<lparr>requests := requests p @ [AcceptCall (call_callId i)]\<rparr>
                in case acceptCall (call_callId i) of
                     Inr result \<Rightarrow> p1\<lparr>activeCall := Some (accepted_call i), incomingCall := None\<rparr>
                   | Inl message \<Rightarrow>
                       if message \<noteq> [] \<and> str_includes message ''not in ringing state''
                       then p1\<lparr>activeCall := Some (accepted_call i), incomingCall := None\<rparr>
                       else p1\<lparr>error := Some (js_or message ''Failed to accept call''),
                               incomingCall := None\<rparr>)))"

definition handleRejectIncomingCall ::
  "(string \<Rightarrow> string \<Rightarrow> string + unit) \<Rightarrow> call option \<Rightarrow> page \<Rightarrow> page" where
  "handleRejectIncomingCall rejectCall closureIncomingCall p =
     (case closureIncomingCall of
        None \<Rightarrow> p
      | Some i \<Rightarrow>
          (let p1 = p\<lparr>requests := requests p @ [RejectCall (call_callId i) ''User rejected'']\<rparr>
           in case rejectCall (call_callId i) ''User rejected'' of
                Inr result \<Rightarrow> p1\<lparr>incomingCall := None\<rparr>
              | Inl message \<Rightarrow> p1\<lparr>incomingCall := None\<rparr>))"

text \<open>What the page renders: the call component under \<^verbatim>\<open>activeCall &&\<close>, and the
  incoming-call prompt with its Accept and Reject buttons under
  \<^verbatim>\<open>incomingCall && !activeCall && incomingCall.callId !== activeCall?.callId\<close>.\<close>

definition renders_call_component :: "page \<Rightarrow> bool" where
  "renders_call_component p = (case activeCall p of None \<Rightarrow> False | Some a \<Rightarrow> True)"

definition renders_incoming_prompt :: "page \<Rightarrow> bool" where
  "renders_incoming_prompt p =
     (case incomingCall p of
        None \<Rightarrow> False
      | Some i \<Rightarrow>
          (case activeCall p of
             None \<Rightarrow> call_callId i \<noteq> []
           | Some a \<Rightarrow> False))"

section \<open>The call session: \<^verbatim>\<open>EnhancedVideoCall\<close>\<close>

text \<open>
  The component of \<^verbatim>\<open>src/components/Call/EnhancedVideoCall.jsx\<close>: its React state and
  refs as a record, its functions as state transformers. The browser's media engine,
  the call service and the parent's \<^verbatim>\<open>onCallEnd\<close> are outside the component: every call
  made on them is appended to \<open>effects\<close>, and whether such a call succeeds (returns, or
  its promise resolves) is given by the environment. Of the peer connection only what
  the component reads back is kept: \<^verbatim>\<open>remoteDescription\<close>, \<^verbatim>\<open>localDescription\<close> and
  \<^verbatim>\<open>connectionState\<close>. An asynchronous function runs to its end before the next event
  is handled. The socket listeners are registered again by their effect whenever
  \<^verbatim>\<open>callStatus\<close> changes, so the \<^verbatim>\<open>callStatus\<close> they close over is the one of the state.
\<close>

type_synonym sdp = string
type_synonym candidate = string

record signal_data =
  callId :: string
  offer :: "sdp option"
  answer :: "sdp option"
  candidate :: "candidate option"

text \<open>An entry of \<^verbatim>\<open>pendingSignals[callId]\<close>: \<^verbatim>\<open>{ eventType, data }\<close>.\<close>

type_synonym signal = "string \<times> signal_data"

datatype effect =
    NewPeerConnection
  | GetUserMedia
  | AddTrack nat
  | SetRemoteDescription sdp
  | CreateAnswer
  | SetLocalDescription sdp
  | AddIceCandidate candidate
  | GetStats
  | StopTrack nat
  | ClosePeer
  | ServiceAcceptCall string
  | ServiceRejectCall string string
  | ServiceEndCall string string
  | ServiceSendAnswer string sdp
  | OnCallEnd

record peer =
  remoteDescription :: "sdp option"
  localDescription :: "sdp option"
  connectionState :: string

subsection \<open>JavaScript numbers and the statistics of the media engine\<close>

text \<open>A JavaScript number is \<^verbatim>\<open>NaN\<close>, an infinity or a finite value. Finite arithmetic is
  exact here (no rounding, no signed zero); comparisons with \<^verbatim>\<open>NaN\<close> are false.\<close>

datatype jsnum = NaN | NegInf | Fin real | PosInf

fun js_less :: "jsnum \<Rightarrow> jsnum \<Rightarrow> bool" where
  "js_less (Fin x) (Fin y) = (x < y)"
| "js_less NegInf (Fin y) = True"
| "js_less NegInf PosInf = True"
| "js_less (Fin x) PosInf = True"
| "js_less _ _ = False"

definition js_greater :: "jsnum \<Rightarrow> jsnum \<Rightarrow> bool" where
  "js_greater a b = js_less b a"

fun sign_of :: "jsnum \<Rightarrow> real" where
  "sign_of (Fin x) = sgn x"
| "sign_of PosInf = 1"
| "sign_of NegInf = - 1"
| "sign_of NaN = 0"

definition inf_of_sign :: "real \<Rightarrow> jsnum" where
  "inf_of_sign x = (if 0 < x then PosInf else if x < 0 then NegInf else NaN)"

definition js_plus :: "jsnum \<Rightarrow> jsnum \<Rightarrow> jsnum" where
  "js_plus a b =
     (case (a, b) of
        (Fin x, Fin y) \<Rightarrow> Fin (x + y)
      | (NaN, _) \<Rightarrow> NaN
      | (_, NaN) \<Rightarrow> NaN
      | (PosInf, NegInf) \<Rightarrow> NaN
      | (NegInf, PosInf) \<Rightarrow> NaN
      | (PosInf, _) \<Rightarrow> PosInf
      | (_, PosInf) \<Rightarrow> PosInf
      | _ \<Rightarrow> NegInf)"

definition js_times :: "jsnum \<Rightarrow> jsnum \<Rightarrow> jsnum" where
  "js_times a b =
     (case (a, b) of
        (Fin x, Fin y) \<Rightarrow> Fin (x * y)
      | (NaN, _) \<Rightarrow> NaN
      | (_, NaN) \<Rightarrow> NaN
      | _ \<Rightarrow> inf_of_sign (sign_of a * sign_of b))"

definition js_divide :: "jsnum \<Rightarrow> jsnum \<Rightarrow> jsnum" where
  "js_divide a b =
     (case (a, b) of
        (Fin x, Fin y) \<Rightarrow> if y = 0 then inf_of_sign (sgn x) else Fin (x / y)
      | (NaN, _) \<Rightarrow> NaN
      | (_, NaN) \<Rightarrow> NaN
      | (Fin x, _) \<Rightarrow> Fin 0
      | (_, Fin y) \<Rightarrow> inf_of_sign (sign_of a * (if y < 0 then - 1 else 1))
      | _ \<Rightarrow> NaN)"

record report =
  report_type :: string
  mediaType :: string
  bytesReceived :: jsnum
  packetsReceived :: jsnum
  packetsLost :: jsnum

text \<open>The body of \<^verbatim>\<open>stats.forEach(report => ...)\<close> on the triple
  \<open>(videoBitrate, audioBitrate, packetLoss)\<close>.\<close>

definition stats_step :: "jsnum \<times> jsnum \<times> jsnum \<Rightarrow> report \<Rightarrow> jsnum \<times> jsnum \<times> jsnum" where
  "stats_step acc r =
     (case acc of (videoBitrate, audioBitrate, packetLoss) \<Rightarrow>
        if report_type r = ''inbound-rtp'' then
          (let kbps = js_divide (js_times (bytesReceived r) (Fin 8)) (Fin 1000);
               loss = js_times (js_divide (packetsLost r)
                                  (js_plus (packetsReceived r) (packetsLost r))) (Fin 100)
           in if mediaType r = ''video'' then (kbps, audioBitrate, loss)
              else if mediaType r = ''audio'' then (videoBitrate, kbps, loss)
              else (videoBitrate, audioBitrate, loss))
        else acc)"

definition stats_forEach :: "report list \<Rightarrow> jsnum \<times> jsnum \<times> jsnum" where
  "stats_forEach reports = foldl stats_step (Fin 0, Fin 0, Fin 0) reports"

text \<open>The \<^verbatim>\<open>if\<close> chain that picks the argument of \<^verbatim>\<open>setConnectionQuality\<close>.\<close>

definition quality_of :: "jsnum \<Rightarrow> jsnum \<Rightarrow> string" where
  "quality_of packetLoss videoBitrate =
     (if js_less packetLoss (Fin 1) \<and> js_greater videoBitrate (Fin 500) then ''excellent''
      else if js_less packetLoss (Fin 3) \<and> js_greater videoBitrate (Fin 300) then ''good''
      else if js_less packetLoss (Fin 5) \<and> js_greater videoBitrate (Fin 200) then ''fair''
      else ''poor'')"

text \<open>The tiers in the words of the specification, on a sample of finite numbers: loss
  below 1 percent and bitrate above 500 kbps is excellent; otherwise loss below 3 and
  bitrate above 300 is good; otherwise loss below 5 and bitrate above 200 is fair;
  otherwise poor.\<close>

datatype tier = Excellent | Good | Fair | Poor

definition spec_tier :: "real \<Rightarrow> real \<Rightarrow> tier" where
  "spec_tier lossPercent bitrateKbps =
     (if lossPercent < 1 \<and> bitrateKbps > 500 then Excellent
      else if lossPercent < 3 \<and> bitrateKbps > 300 then Good
      else if lossPercent < 5 \<and> bitrateKbps > 200 then Fair
      else Poor)"

text \<open>A bitrate in the words of the specification, kilobits per second: the bytes
  received in a span of time, as kilobits, over its seconds.\<close>

definition spec_bitrate_kbps :: "real \<Rightarrow> real \<Rightarrow> real" where
  "spec_bitrate_kbps bytes seconds = bytes * 8 / 1000 / seconds"

fun tier_name :: "tier \<Rightarrow> string" where
  "tier_name Excellent = ''excellent''"
| "tier_name Good = ''good''"
| "tier_name Fair = ''fair''"
| "tier_name Poor = ''poor''"

subsection \<open>Props, state and refs\<close>

text \<open>\<open>incomingCallId\<close> is \<^verbatim>\<open>incomingCallData?.callId\<close>, \<open>incomingOffer\<close> is
  \<^verbatim>\<open>incomingCallData?.signalingData?.offer\<close>, and \<open>onCallEnd\<close> says whether the parent
  passed the callback.\<close>

record props =
  propCallId :: "string option"
  incomingCallId :: "string option"
  incomingOffer :: "sdp option"
  isIncoming :: bool
  onCallEnd :: bool

definition truthy :: "string option \<Rightarrow> bool" where
  "truthy v = (case v of None \<Rightarrow> False | Some c \<Rightarrow> c \<noteq> [])"

text \<open>\<^verbatim>\<open>propCallId || incomingCallData?.callId\<close>.\<close>

definition currentCallId :: "props \<Rightarrow> string option" where
  "currentCallId pr = (if truthy (propCallId pr) then propCallId pr else incomingCallId pr)"

text \<open>A stream is the list of its tracks.\<close>

record vc =
  callStatus :: string
  vc_error :: "string option"
  connectionQuality :: string
  pendingSignals :: "string \<rightharpoonup> signal list"
  peerConnectionRef :: "peer option"
  localStreamRef :: "nat list option"
  screenStreamRef :: "nat list option"
  durationIntervalRef :: "nat option"
  qualityCheckIntervalRef :: "nat option"
  isWebRTCSetupRef :: bool
  effects :: "effect list"

text \<open>The first render: \<^verbatim>\<open>useState\<close> and \<^verbatim>\<open>useRef\<close> initial values.\<close>

definition mount :: "props \<Rightarrow> vc" where
  "mount pr =
     \<lparr>callStatus = (if isIncoming pr then ''incoming'' else ''initiating''), vc_error = None,
      connectionQuality = ''good'', pendingSignals = Map.empty, peerConnectionRef = None,
      localStreamRef = None, screenStreamRef = None, durationIntervalRef = None,
      qualityCheckIntervalRef = None, isWebRTCSetupRef = False, effects = []\<rparr>"

text \<open>What the outside answers: whether a call succeeds, the message of the error when
  it does not, the tracks \<^verbatim>\<open>getUserMedia\<close> gives, the answer \<^verbatim>\<open>createAnswer\<close> gives and
  the reports \<^verbatim>\<open>getStats\<close> gives.\<close>

record env =
  succeeds :: "effect \<Rightarrow> bool"
  message :: "effect \<Rightarrow> string"
  userMedia :: "nat list"
  createdAnswer :: sdp
  stats :: "report list"

definition perform :: "vc \<Rightarrow> effect \<Rightarrow> vc" where
  "perform s e = s\<lparr>effects := effects s @ [e]\<rparr>"

text \<open>\<^verbatim>\<open>queueSignal\<close>.\<close>

definition queueSignal :: "vc \<Rightarrow> string \<Rightarrow> signal_data \<Rightarrow> vc" where
  "queueSignal s eventType d =
     s\<lparr>pendingSignals := (pendingSignals s)
        (callId d \<mapsto> (case pendingSignals s (callId d) of None \<Rightarrow> [] | Some l \<Rightarrow> l) @ [(eventType, d)])\<rparr>"

subsection \<open>Setting up and tearing down the media engine\<close>

text \<open>The connection-state callback installed by \<^verbatim>\<open>setupWebRTC\<close> starts the quality
  monitor: \<^verbatim>\<open>setInterval(..., 5000)\<close>. The ref keeps the period of the running timer.\<close>

definition startQualityMonitoring :: "vc \<Rightarrow> vc" where
  "startQualityMonitoring s = s\<lparr>qualityCheckIntervalRef := Some 5000\<rparr>"

text \<open>\<^verbatim>\<open>onconnectionstatechange\<close>, when the engine's connection state has become \<open>state\<close>.
  Without a peer connection the read of \<^verbatim>\<open>connectionState\<close> is a \<^verbatim>\<open>TypeError\<close> and nothing
  else happens.\<close>

definition onconnectionstatechange :: "vc \<Rightarrow> string \<Rightarrow> vc" where
  "onconnectionstatechange s state =
     (case peerConnectionRef s of
        None \<Rightarrow> s
      | Some pc \<Rightarrow>
          (let s1 = s\<lparr>peerConnectionRef := Some (pc\<lparr>connectionState := state\<rparr>)\<rparr>
           in if state = ''connected''
              then startQualityMonitoring (s1\<lparr>callStatus := ''connected''\<rparr>)
              else if state = ''disconnected''
              then s1\<lparr>callStatus := ''failed'', vc_error := Some ''Connection disconnected''\<rparr>
              else if state = ''failed''
              then s1\<lparr>callStatus := ''failed'',
                      vc_error := Some ''Connection failed - check network connectivity''\<rparr>
              else s1))"

text \<open>\<^verbatim>\<open>setupWebRTC\<close>: the \<^verbatim>\<open>try\<close> block up to the first failure, then the \<^verbatim>\<open>catch\<close>.\<close>

definition setupWebRTC :: "env \<Rightarrow> vc \<Rightarrow> string \<Rightarrow> vc" where
  "setupWebRTC en s cid =
     (let s1 = perform s NewPeerConnection
      in if \<not> succeeds en NewPeerConnection
         then s1\<lparr>vc_error := Some (js_or (message en NewPeerConnection) ''Failed to setup call''),
                 callStatus := ''failed''\<rparr>
         else
           (let s2 = perform
                       (s1\<lparr>peerConnectionRef := Some
                            \<lparr>remoteDescription = None, localDescription = None,
                             connectionState = ''new''\<rparr>\<rparr>) GetUserMedia
            in if \<not> succeeds en GetUserMedia
               then s2\<lparr>vc_error := Some (js_or (message en GetUserMedia) ''Failed to setup call''),
                       callStatus := ''failed''\<rparr>
               else
                 (let s3 = foldl (\<lambda>s t. perform s (AddTrack t))
                             (s2\<lparr>localStreamRef := Some (userMedia en)\<rparr>) (userMedia en)
                  in s3\<lparr>isWebRTCSetupRef := True\<rparr>)))"

definition stop_tracks :: "vc \<Rightarrow> nat list \<Rightarrow> vc" where
  "stop_tracks s ts = foldl (\<lambda>s t. perform s (StopTrack t)) s ts"

definition cleanup :: "vc \<Rightarrow> vc" where
  "cleanup s =
     (let s1 = (case localStreamRef s of
                  Some ts \<Rightarrow> (stop_tracks s ts)\<lparr>localStreamRef := None\<rparr>
                | None \<Rightarrow> s);
          s2 = (case screenStreamRef s1 of
                  Some ts \<Rightarrow> (stop_tracks s1 ts)\<lparr>screenStreamRef := None\<rparr>
                | None \<Rightarrow> s1);
          s3 = (case peerConnectionRef s2 of
                  Some pc \<Rightarrow> (perform s2 ClosePeer)\<lparr>peerConnectionRef := None\<rparr>
                | None \<Rightarrow> s2)
      in s3\<lparr>isWebRTCSetupRef := False, durationIntervalRef := None,
            qualityCheckIntervalRef := None\<rparr>)"

text \<open>The effect that starts \<^verbatim>\<open>initializeCall\<close> returns \<^verbatim>\<open>() => { cleanup() }\<close>: React runs it
  when the component is unmounted.\<close>

definition unmount :: "vc \<Rightarrow> vc" where
  "unmount s = cleanup s"

subsection \<open>Signalling handlers\<close>

text \<open>\<^verbatim>\<open>processQueuedIceCandidates\<close> reads \<^verbatim>\<open>pendingSignals\<close> from the render that created
  the running closure (\<open>closurePending\<close>) and writes the state through a functional
  update. \<^verbatim>\<open>addIceCandidate(...).catch(...)\<close> only logs a failure.\<close>

definition add_queued :: "vc \<Rightarrow> signal \<Rightarrow> vc" where
  "add_queued s sg =
     (case peerConnectionRef s of
        Some pc \<Rightarrow> (case candidate (snd sg) of
                     Some c \<Rightarrow> perform s (AddIceCandidate c)
                   | None \<Rightarrow> s)
      | None \<Rightarrow> s)"

definition processQueuedIceCandidates :: "(string \<rightharpoonup> signal list) \<Rightarrow> vc \<Rightarrow> string \<Rightarrow> vc" where
  "processQueuedIceCandidates closurePending s cid =
     (let queuedCandidates =
            filter (\<lambda>sg. fst sg = ''ice-candidate'')
              (case closurePending cid of None \<Rightarrow> [] | Some l \<Rightarrow> l);
          s1 = foldl add_queued s queuedCandidates
      in if length queuedCandidates > 0
         then s1\<lparr>pendingSignals := (pendingSignals s1)
                 (cid \<mapsto> (case pendingSignals s1 cid of
                            Some l \<Rightarrow> filter (\<lambda>sg. fst sg \<noteq> ''ice-candidate'') l
                          | None \<Rightarrow> []))\<rparr>
         else s1)"

text \<open>The \<^verbatim>\<open>try\<close> block of \<^verbatim>\<open>handleIncomingOffer\<close>: the state reached and the message of
  the error thrown, if one is. There is no test of \<^verbatim>\<open>remoteDescription\<close> before
  \<^verbatim>\<open>setRemoteDescription(offer)\<close>.\<close>

definition handleIncomingOffer_try ::
  "env \<Rightarrow> (string \<rightharpoonup> signal list) \<Rightarrow> vc \<Rightarrow> sdp \<Rightarrow> string \<Rightarrow> vc \<times> string option" where
  "handleIncomingOffer_try en closurePending s ofr cid =
     (let s1 = (case peerConnectionRef s of None \<Rightarrow> setupWebRTC en s cid | Some pc \<Rightarrow> s)
      in case peerConnectionRef s1 of
           None \<Rightarrow> (s1, Some ''Cannot read properties of null'')
         | Some pc \<Rightarrow>
             (let s2 = perform s1 (SetRemoteDescription ofr)
              in if \<not> succeeds en (SetRemoteDescription ofr)
                 then (s2, Some (message en (SetRemoteDescription ofr)))
                 else
                   (let s3 = processQueuedIceCandidates closurePending
                               (s2\<lparr>peerConnectionRef := Some (pc\<lparr>remoteDescription := Some ofr\<rparr>)\<rparr>) cid;
                        s4 = perform s3 CreateAnswer
                    in if \<not> succeeds en CreateAnswer
                       then (s4, Some (message en CreateAnswer))
                       else
                         (let ans = createdAnswer en;
                              s5 = perform s4 (SetLocalDescription ans)
                          in if \<not> succeeds en (SetLocalDescription ans)
                             then (s5, Some (message en (SetLocalDescription ans)))
                             else
                               (let s6 = perform
                                           (s5\<lparr>peerConnectionRef :=
                                                 map_option (\<lambda>pc. pc\<lparr>localDescription := Some ans\<rparr>)
                                                   (peerConnectionRef s5)\<rparr>)
                                           (ServiceSendAnswer cid ans)
                                in if \<not> succeeds en (ServiceSendAnswer cid ans)
                                   then (s6, Some (message en (ServiceSendAnswer cid ans)))
                                   else (s6, None))))))"

definition handleIncomingOffer ::
  "env \<Rightarrow> (string \<rightharpoonup> signal list) \<Rightarrow> vc \<Rightarrow> sdp \<Rightarrow> string \<Rightarrow> vc" where
  "handleIncomingOffer en closurePending s ofr cid =
     (case handleIncomingOffer_try en closurePending s ofr cid of
        (s', Some m) \<Rightarrow>
          s'\<lparr>vc_error := Some (js_or m ''Failed to handle incoming offer''), callStatus := ''failed''\<rparr>
      | (s', None) \<Rightarrow> s')"

text \<open>The three listeners registered on the socket service. \<open>cur\<close> is the call id of the
  effect that registered them (the effect registers nothing without one).\<close>

definition for_this_call :: "string \<Rightarrow> vc \<Rightarrow> signal_data \<Rightarrow> bool" where
  "for_this_call cur s d =
     (callId d = cur \<or> callStatus s = ''connected'' \<or> callStatus s = ''ringing'')"

definition handleIncomingOfferEvent ::
  "env \<Rightarrow> (string \<rightharpoonup> signal list) \<Rightarrow> string \<Rightarrow> vc \<Rightarrow> signal_data \<Rightarrow> vc" where
  "handleIncomingOfferEvent en closurePending cur s d =
     (if for_this_call cur s d
      then (case offer d of
              Some ofr \<Rightarrow> handleIncomingOffer en closurePending s ofr (callId d)
            | None \<Rightarrow> s)
      else queueSignal s ''offer'' d)"

definition handleIncomingAnswer ::
  "env \<Rightarrow> (string \<rightharpoonup> signal list) \<Rightarrow> string \<Rightarrow> vc \<Rightarrow> signal_data \<Rightarrow> vc" where
  "handleIncomingAnswer en closurePending cur s d =
     (if for_this_call cur s d
      then (case peerConnectionRef s of
              Some pc \<Rightarrow>
                (case answer d of
                   Some a \<Rightarrow>
                     if remoteDescription pc = None
                     then (let s1 = perform s (SetRemoteDescription a)
                           in if succeeds en (SetRemoteDescription a)
                              then processQueuedIceCandidates closurePending
                                     (s1\<lparr>peerConnectionRef := Some (pc\<lparr>remoteDescription := Some a\<rparr>)\<rparr>)
                                     (callId d)
                              else s1)
                     else s
                 | None \<Rightarrow> s)
            | None \<Rightarrow> s)
      else queueSignal s ''answer'' d)"

definition handleIncomingIceCandidate :: "string \<Rightarrow> vc \<Rightarrow> signal_data \<Rightarrow> vc" where
  "handleIncomingIceCandidate cur s d =
     (if for_this_call cur s d
      then (case peerConnectionRef s of
              Some pc \<Rightarrow>
                (case candidate d of
                   Some c \<Rightarrow>
                     if remoteDescription pc \<noteq> None
                     then perform s (AddIceCandidate c)
                     else queueSignal s ''ice-candidate'' d
                 | None \<Rightarrow> s)
            | None \<Rightarrow> s)
      else queueSignal s ''ice-candidate'' d)"

text \<open>The effect that runs after a render in which \<^verbatim>\<open>pendingSignals\<close> (or the call id)
  has changed: it goes through the signals queued for the current call and then
  empties their queue.\<close>

definition pending_step :: "env \<Rightarrow> (string \<rightharpoonup> signal list) \<Rightarrow> vc \<Rightarrow> signal \<Rightarrow> vc" where
  "pending_step en closurePending s sg =
     (case sg of (eventType, d) \<Rightarrow>
        (case (eventType = ''offer'', offer d) of
           (True, Some ofr) \<Rightarrow> handleIncomingOffer en closurePending s ofr (callId d)
         | _ \<Rightarrow>
           (case (eventType = ''answer'', answer d, peerConnectionRef s) of
              (True, Some a, Some pc) \<Rightarrow>
                (let s1 = perform s (SetRemoteDescription a)
                 in if succeeds en (SetRemoteDescription a)
                    then processQueuedIceCandidates closurePending
                           (s1\<lparr>peerConnectionRef := Some (pc\<lparr>remoteDescription := Some a\<rparr>)\<rparr>)
                           (callId d)
                    else s1)
            | _ \<Rightarrow>
              (case (eventType = ''ice-candidate'', candidate d, peerConnectionRef s) of
                 (True, Some c, Some pc) \<Rightarrow>
                   if remoteDescription pc \<noteq> None then perform s (AddIceCandidate c) else s
               | _ \<Rightarrow> s))))"

definition pendingSignalsEffect :: "env \<Rightarrow> props \<Rightarrow> vc \<Rightarrow> vc" where
  "pendingSignalsEffect en pr s =
     (case currentCallId pr of
        None \<Rightarrow> s
      | Some cur \<Rightarrow>
          if cur = [] then s
          else (case pendingSignals s cur of
                  None \<Rightarrow> s
                | Some queued \<Rightarrow>
                    (let s1 = foldl (pending_step en (pendingSignals s)) s queued
                     in s1\<lparr>pendingSignals := (pendingSignals s1)(cur \<mapsto> [])\<rparr>)))"

subsection \<open>Accepting, rejecting and ending\<close>

definition acceptCall :: "env \<Rightarrow> (string \<rightharpoonup> signal list) \<Rightarrow> props \<Rightarrow> vc \<Rightarrow> vc" where
  "acceptCall en closurePending pr s =
     (case (if truthy (currentCallId pr) then currentCallId pr else None) of
        None \<Rightarrow> s\<lparr>vc_error := Some (js_or ''Call ID is required'' ''Failed to accept call''),
                  callStatus := ''failed''\<rparr>
      | Some cur \<Rightarrow>
          (let s1 = perform s (ServiceAcceptCall cur)
           in if \<not> succeeds en (ServiceAcceptCall cur)
              then s1\<lparr>vc_error := Some (js_or (message en (ServiceAcceptCall cur)) ''Failed to accept call''),
                      callStatus := ''failed''\<rparr>
              else (case incomingOffer pr of
                      Some ofr \<Rightarrow>
                        handleIncomingOffer en closurePending (s1\<lparr>callStatus := ''connected''\<rparr>) ofr cur
                    | None \<Rightarrow> s1\<lparr>callStatus := ''connected''\<rparr>)))"

text \<open>\<^verbatim>\<open>rejectCall\<close>: the \<^verbatim>\<open>try\<close> block and the \<^verbatim>\<open>catch\<close> block end the same way, and neither
  calls \<^verbatim>\<open>cleanup\<close>.\<close>

definition rejectCall :: "env \<Rightarrow> props \<Rightarrow> vc \<Rightarrow> vc" where
  "rejectCall en pr s =
     (case (if truthy (currentCallId pr) then currentCallId pr else None) of
        Some cur \<Rightarrow>
          (let s1 = perform s (ServiceRejectCall cur ''User rejected'')
           in if \<not> succeeds en (ServiceRejectCall cur ''User rejected'')
              then (let s2 = s1\<lparr>callStatus := ''rejected''\<rparr>
                    in if onCallEnd pr then perform s2 OnCallEnd else s2)
              else (let s2 = s1\<lparr>callStatus := ''rejected''\<rparr>
                    in if onCallEnd pr then perform s2 OnCallEnd else s2))
      | None \<Rightarrow>
          (let s2 = s\<lparr>callStatus := ''rejected''\<rparr>
           in if onCallEnd pr then perform s2 OnCallEnd else s2))"

definition endCall :: "env \<Rightarrow> props \<Rightarrow> vc \<Rightarrow> vc" where
  "endCall en pr s =
     (case (if truthy (currentCallId pr) then currentCallId pr else None) of
        Some cur \<Rightarrow>
          (let s1 = perform s (ServiceEndCall cur ''user_ended'')
           in if \<not> succeeds en (ServiceEndCall cur ''user_ended'')
              then (let s2 = cleanup (s1\<lparr>callStatus := ''ended''\<rparr>)
                    in if onCallEnd pr then perform s2 OnCallEnd else s2)
              else (let s2 = cleanup (s1\<lparr>callStatus := ''ended''\<rparr>)
                    in if onCallEnd pr then perform s2 OnCallEnd else s2))
      | None \<Rightarrow>
          (let s2 = cleanup (s\<lparr>callStatus := ''ended''\<rparr>)
           in if onCallEnd pr then perform s2 OnCallEnd else s2))"

subsection \<open>The quality monitor\<close>

text \<open>The callback of the interval started by \<^verbatim>\<open>startQualityMonitoring\<close>. A failure of
  \<^verbatim>\<open>getStats\<close> is logged and the quality stays as it was.\<close>

definition qualityCheck :: "env \<Rightarrow> vc \<Rightarrow> vc" where
  "qualityCheck en s =
     (case peerConnectionRef s of
        Some pc \<Rightarrow>
          if connectionState pc = ''connected''
          then (let s1 = perform s GetStats
                in if \<not> succeeds en GetStats then s1
                   else (case stats_forEach (stats en) of
                           (videoBitrate, audioBitrate, packetLoss) \<Rightarrow>
                             s1\<lparr>connectionQuality := quality_of packetLoss videoBitrate\<rparr>))
          else s
      | None \<Rightarrow> s)"

section \<open>Properties of the transport channel\<close>

subsection \<open>Fan-out\<close>

lemma forEach_listener_eq:
  "forEach_listener thr cbs d tr = (tr @ map (\<lambda>cb. (cb, d)) cbs, None)"
  by (induction cbs arbitrary: tr) (simp_all add: invoke_def)

lemma emitEvent_eq:
  "emitEvent thr s ev d =
     (s\<lparr>calls := calls s @ map (\<lambda>cb. (cb, d))
                              (case eventListeners s ev of None \<Rightarrow> [] | Some l \<Rightarrow> l)\<rparr>, None)"
  by (simp add: emitEvent_def forEach_listener_eq split: option.splits)

lemma reemit_eq:
  "reemit thr s ev ds =
     (s\<lparr>calls := calls s @ concat (map (\<lambda>d. map (\<lambda>cb. (cb, d))
                 (case eventListeners s ev of None \<Rightarrow> [] | Some l \<Rightarrow> l)) ds)\<rparr>, None)"
  by (induction ds arbitrary: s) (simp_all add: emitEvent_eq)

text \<open>
  Claim C9. Whatever the listeners of an event do, throw or return, \<^verbatim>\<open>emitEvent\<close> itself
  does not throw, and every listener registered for the event is invoked with the
  payload, once and in registration order.
\<close>

theorem emitEvent_isolates_listener_failures:
  assumes "eventListeners s ev = Some listeners"
  shows "snd (emitEvent thr s ev d) = None
    \<and> calls (fst (emitEvent thr s ev d)) = calls s @ map (\<lambda>cb. (cb, d)) listeners"
  using assms by (simp add: emitEvent_eq)

text \<open>Three listeners of \<^verbatim>\<open>call_ended\<close>, the second of which throws.\<close>

theorem emitEvent_isolates_witness:
  "snd (emitEvent (\<lambda>cb d. cb = 2)
          (fst (on (\<lambda>cb d. cb = 2) (fst (on (\<lambda>cb d. cb = 2)
             (fst (on (\<lambda>cb d. cb = 2) constructor ''call_ended'' 1)) ''call_ended'' 2))
             ''call_ended'' 3)) ''call_ended'' ''c1'') = None
   \<and> calls (fst (emitEvent (\<lambda>cb d. cb = 2)
          (fst (on (\<lambda>cb d. cb = 2) (fst (on (\<lambda>cb d. cb = 2)
             (fst (on (\<lambda>cb d. cb = 2) constructor ''call_ended'' 1)) ''call_ended'' 2))
             ''call_ended'' 3)) ''call_ended'' ''c1''))
       = [(1, ''c1''), (2, ''c1''), (3, ''c1'')]"
  using emitEvent_isolates_listener_failures
     [of "fst (on (\<lambda>cb d. cb = 2) (fst (on (\<lambda>cb d. cb = 2)
             (fst (on (\<lambda>cb d. cb = 2) constructor ''call_ended'' 1)) ''call_ended'' 2))
             ''call_ended'' 3)"
         "''call_ended''" "[1, 2, 3]" "\<lambda>cb d. cb = 2" "''c1''"]
  by (simp add: on_def constructor_def set_add_def)

subsection \<open>Stored signalling events\<close>

text \<open>
  Claim C1. The claim asks that a signalling event arriving with no listener be kept
  and replayed to the listener that registers later. The handler of \<^verbatim>\<open>webrtc:answer\<close>
  does not store: on a fresh service, an answer that arrives before any listener is
  neither stored nor delivered, and the listener of \<^verbatim>\<open>webrtc_answer\<close> registered
  afterwards is never called.
\<close>

theorem answer_without_listener_is_lost:
  "storedWebRTCEvents
     (fst (setupEventHandlers (\<lambda>cb d. False) constructor ''webrtc:answer'' ''answer of c1''))
     ''webrtc_answer'' = None
   \<and> calls (fst (setupEventHandlers (\<lambda>cb d. False) constructor ''webrtc:answer'' ''answer of c1''))
       = []
   \<and> calls (fst (on (\<lambda>cb d. False)
        (fst (setupEventHandlers (\<lambda>cb d. False) constructor ''webrtc:answer'' ''answer of c1''))
        ''webrtc_answer'' 1)) = []"
  by (simp add: setupEventHandlers_def emitEvent_eq constructor_def on_def set_add_def
        processStoredWebRTCEvents_def)

text \<open>The sibling handler of \<^verbatim>\<open>webrtc:offer\<close> does what the claim says; the handler of the
  same event under its other wire name, \<^verbatim>\<open>webrtc_offer\<close>, does not.\<close>

lemma colon_offer_without_listener_is_replayed_once:
  "calls (fst (on thr (fst (setupEventHandlers thr constructor ''webrtc:offer'' d))
                ''webrtc_offer'' cb)) = [(cb, d)]
   \<and> storedWebRTCEvents
       (fst (on thr (fst (setupEventHandlers thr constructor ''webrtc:offer'' d))
               ''webrtc_offer'' cb)) ''webrtc_offer'' = None"
  by (simp add: setupEventHandlers_def emitEvent_eq constructor_def on_def set_add_def
        processStoredWebRTCEvents_def no_listeners_def storeWebRTCEvent_def reemit_eq)

lemma underscore_offer_without_listener_is_lost:
  "calls (fst (on thr (fst (setupEventHandlers thr constructor ''webrtc_offer'' d))
                ''webrtc_offer'' cb)) = []"
  by (simp add: setupEventHandlers_def emitEvent_eq constructor_def on_def set_add_def
        processStoredWebRTCEvents_def no_listeners_def storeWebRTCEvent_def reemit_eq)

subsection \<open>The outbound queue\<close>

lemma processMessageQueue_connected:
  "isConnected s \<Longrightarrow> socket s = Some k \<Longrightarrow> messageQueue s = q \<Longrightarrow>
     processMessageQueue s
       = Some (s\<lparr>messageQueue := [], socket := Some (k\<lparr>sent := sent k @ q\<rparr>)\<rparr>)"
proof (induction q arbitrary: s k)
  case Nil
  then show ?case by (subst processMessageQueue.simps) simp
next
  case (Cons m rest)
  let ?k' = "k\<lparr>sent := sent k @ [m]\<rparr>"
  let ?s' = "emit (s\<lparr>messageQueue := rest\<rparr>) (fst m) (snd m)"
  have e: "?s' = s\<lparr>messageQueue := rest, socket := Some ?k'\<rparr>"
    using Cons.prems by (simp add: emit_def)
  have "processMessageQueue s = processMessageQueue ?s'"
    using Cons.prems by (subst processMessageQueue.simps) simp
  also have "\<dots> = Some (?s'\<lparr>messageQueue := [], socket := Some (?k'\<lparr>sent := sent ?k' @ rest\<rparr>)\<rparr>)"
    by (rule Cons.IH) (simp_all add: e Cons.prems)
  finally show ?case by (simp add: e)
qed

lemma emit_disconnected:
  "\<not> isConnected s \<Longrightarrow> emit s ev d = s\<lparr>messageQueue := messageQueue s @ [(ev, d)]\<rparr>"
  by (simp add: emit_def)

lemma emits_disconnected:
  "\<not> isConnected s \<Longrightarrow>
     foldl (\<lambda>s m. emit s (fst m) (snd m)) s msgs = s\<lparr>messageQueue := messageQueue s @ msgs\<rparr>"
  by (induction msgs arbitrary: s) (simp_all add: emit_disconnected)

text \<open>
  Claim C5. While the service is not connected, \<^verbatim>\<open>emit\<close> has no failing path: it appends
  the pair to \<^verbatim>\<open>messageQueue\<close>. When the socket then reports \<^verbatim>\<open>connect\<close>, the handler
  returns, the queue is empty, and the socket has been given what was queued, each
  message once and in the order of sending: both for messages sent while a connection
  attempt is under way (the socket \<open>k\<close> exists), and for messages sent before and after
  \<^verbatim>\<open>connect(token)\<close> creates the socket.
\<close>

theorem send_while_disconnected_is_queued_and_flushed:
  assumes "\<not> isConnected s"
  shows "emit s ev d = s\<lparr>messageQueue := messageQueue s @ [(ev, d)]\<rparr>
    \<and> (socket s = Some k \<longrightarrow>
         (\<exists>s2. on_connect thr (foldl (\<lambda>s m. emit s (fst m) (snd m)) s msgs) d0 = Some (s2, None)
            \<and> isConnected s2 \<and> messageQueue s2 = []
            \<and> socket s2 = Some (k\<lparr>sent := sent k @ messageQueue s @ msgs\<rparr>)))
    \<and> (\<not> isConnecting s \<longrightarrow>
         (\<exists>s2. on_connect thr
                  (foldl (\<lambda>s m. emit s (fst m) (snd m))
                     (connect (foldl (\<lambda>s m. emit s (fst m) (snd m)) s before) token) after) d0
                = Some (s2, None)
            \<and> isConnected s2 \<and> messageQueue s2 = []
            \<and> socket s2 = Some \<lparr>sent = messageQueue s @ before @ after,
                                 options = io_opts token\<rparr>))"
proof (intro conjI impI)
  show "emit s ev d = s\<lparr>messageQueue := messageQueue s @ [(ev, d)]\<rparr>"
    using assms by (rule emit_disconnected)
next
  assume "socket s = Some k"
  with assms show "\<exists>s2. on_connect thr (foldl (\<lambda>s m. emit s (fst m) (snd m)) s msgs) d0
              = Some (s2, None)
            \<and> isConnected s2 \<and> messageQueue s2 = []
            \<and> socket s2 = Some (k\<lparr>sent := sent k @ messageQueue s @ msgs\<rparr>)"
    by (simp add: emits_disconnected on_connect_def emitEvent_eq startHeartbeat_def
          processMessageQueue_connected [where q = "messageQueue s @ msgs"])
next
  assume "\<not> isConnecting s"
  with assms show "\<exists>s2. on_connect thr
                  (foldl (\<lambda>s m. emit s (fst m) (snd m))
                     (connect (foldl (\<lambda>s m. emit s (fst m) (snd m)) s before) token) after) d0
                = Some (s2, None)
            \<and> isConnected s2 \<and> messageQueue s2 = []
            \<and> socket s2 = Some \<lparr>sent = messageQueue s @ before @ after,
                                 options = io_opts token\<rparr>"
    by (simp add: emits_disconnected connect_def on_connect_def emitEvent_eq startHeartbeat_def
          processMessageQueue_connected [where q = "messageQueue s @ before @ after"])
qed

text \<open>A service that has lost its connection (its old socket has been given \<^verbatim>\<open>ping\<close>):
  two messages sent before the socket reports \<^verbatim>\<open>connect\<close> again; and one message sent
  before \<^verbatim>\<open>connect(token)\<close> replaces the socket and one after.\<close>

theorem send_while_disconnected_witness:
  "(\<exists>s2. on_connect (\<lambda>cb d. True)
           (foldl (\<lambda>s m. emit s (fst m) (snd m))
              \<lparr>socket = Some \<lparr>sent = [(''ping'', ''1'')], options = io_opts ''token''\<rparr>,
               isConnected = False, isConnecting = False, reconnectAttempts = 0,
               eventListeners = Map.empty, messageQueue = [], storedWebRTCEvents = Map.empty,
               heartbeatInterval = None, authToken = Some ''token'',
               maxReconnectAttempts = 5, reconnectDelay = 1000, calls = []\<rparr>
              [(''call:accept'', ''c1''), (''webrtc:answer'', ''sdp'')]) ''connected''
         = Some (s2, None) \<and> isConnected s2 \<and> messageQueue s2 = []
         \<and> socket s2 = Some \<lparr>sent = [(''ping'', ''1''), (''call:accept'', ''c1''),
                                       (''webrtc:answer'', ''sdp'')],
                               options = io_opts ''token''\<rparr>)
   \<and> (\<exists>s2. on_connect (\<lambda>cb d. True)
           (foldl (\<lambda>s m. emit s (fst m) (snd m))
              (connect
                 (foldl (\<lambda>s m. emit s (fst m) (snd m))
                    \<lparr>socket = Some \<lparr>sent = [(''ping'', ''1'')], options = io_opts ''token''\<rparr>,
                     isConnected = False, isConnecting = False, reconnectAttempts = 0,
                     eventListeners = Map.empty, messageQueue = [],
                     storedWebRTCEvents = Map.empty, heartbeatInterval = None,
                     authToken = Some ''token'', maxReconnectAttempts = 5,
                     reconnectDelay = 1000, calls = []\<rparr>
                    [(''call:accept'', ''c1'')]) ''token'')
              [(''webrtc:answer'', ''sdp'')]) ''connected''
         = Some (s2, None) \<and> isConnected s2 \<and> messageQueue s2 = []
         \<and> socket s2 = Some \<lparr>sent = [(''call:accept'', ''c1''), (''webrtc:answer'', ''sdp'')],
                               options = io_opts ''token''\<rparr>)"
proof -
  let ?s = "\<lparr>socket = Some \<lparr>sent = [(''ping'', ''1'')], options = io_opts ''token''\<rparr>,
             isConnected = False, isConnecting = False, reconnectAttempts = 0,
             eventListeners = Map.empty, messageQueue = [], storedWebRTCEvents = Map.empty,
             heartbeatInterval = None, authToken = Some ''token'',
             maxReconnectAttempts = 5, reconnectDelay = 1000, calls = []\<rparr> :: string service"
  have a: "\<not> isConnected ?s" by simp
  have b: "socket ?s = Some \<lparr>sent = [(''ping'', ''1'')], options = io_opts ''token''\<rparr>" by simp
  have c: "\<not> isConnecting ?s" by simp
  have q: "messageQueue ?s = []" by simp
  note t = send_while_disconnected_is_queued_and_flushed [OF a, of "''ping''" "''2''"]
  have first: "\<exists>s2. on_connect (\<lambda>cb d. True)
           (foldl (\<lambda>s m. emit s (fst m) (snd m)) ?s
              [(''call:accept'', ''c1''), (''webrtc:answer'', ''sdp'')]) ''connected''
         = Some (s2, None) \<and> isConnected s2 \<and> messageQueue s2 = []
         \<and> socket s2 = Some \<lparr>sent = [(''ping'', ''1''), (''call:accept'', ''c1''),
                                       (''webrtc:answer'', ''sdp'')],
                               options = io_opts ''token''\<rparr>"
    using t [THEN conjunct2, THEN conjunct1, rule_format, OF b,
             of "\<lambda>cb d. True" "[(''call:accept'', ''c1''), (''webrtc:answer'', ''sdp'')]"
                "''connected''"]
    by (simp only: q append_Nil append_Cons sock.simps)
  have second: "\<exists>s2. on_connect (\<lambda>cb d. True)
           (foldl (\<lambda>s m. emit s (fst m) (snd m))
              (connect (foldl (\<lambda>s m. emit s (fst m) (snd m)) ?s [(''call:accept'', ''c1'')])
                 ''token'')
              [(''webrtc:answer'', ''sdp'')]) ''connected''
         = Some (s2, None) \<and> isConnected s2 \<and> messageQueue s2 = []
         \<and> socket s2 = Some \<lparr>sent = [(''call:accept'', ''c1''), (''webrtc:answer'', ''sdp'')],
                               options = io_opts ''token''\<rparr>"
    using t [THEN conjunct2, THEN conjunct2, rule_format, OF c,
             of "\<lambda>cb d. True" "[(''call:accept'', ''c1'')]" "''token''"
                "[(''webrtc:answer'', ''sdp'')]" "''connected''"]
    by (simp only: q append_Nil append_Cons)
  from first second show ?thesis by (rule conjI)
qed

subsection \<open>Giving up on reconnection\<close>






section \<open>Properties of the page\<close>

subsection \<open>A second call while one is active\<close>

text \<open>\<^verbatim>\<open>handleCallInitiate\<close> refuses when the render it comes from has an active call.\<close>

lemma handleCallInitiate_refuses:
  "handleCallInitiate api (Some a) p chat_id type
     = p\<lparr>error := Some ''Another call is already active''\<rparr>"
  by (simp add: handleCallInitiate_def js_or_def)

text \<open>
  Claim C4. \<^verbatim>\<open>handleIncomingCall\<close> does not refuse. With call \<^verbatim>\<open>c1\<close> active, the incoming
  call \<^verbatim>\<open>c2\<close> sets no error and leaves the active call as it is; it is stored in
  \<^verbatim>\<open>incomingCall\<close>, for the listener registered at mount (no active call in its closure)
  and for one registered with \<^verbatim>\<open>c1\<close> in its closure alike. The prompt for the stored
  call is not rendered, and the end of \<^verbatim>\<open>c1\<close> erases it.
\<close>

theorem second_incoming_call_is_not_rejected:
  "handleIncomingCall None
      \<lparr>activeCall = Some \<lparr>call_callId = ''c1'', call_chatId = ''chat1'', call_type = ''video'',
                          call_status = ''connected'', call_otherUser = ''bob'',
                          call_isIncoming = False, call_timestamp = []\<rparr>,
       incomingCall = None, error = None, requests = []\<rparr>
      \<lparr>call_callId = ''c2'', call_chatId = ''chat2'', call_type = ''audio'',
       call_status = ''ringing'', call_otherUser = ''carol'', call_isIncoming = True,
       call_timestamp = []\<rparr>
     = \<lparr>activeCall = Some \<lparr>call_callId = ''c1'', call_chatId = ''chat1'', call_type = ''video'',
                          call_status = ''connected'', call_otherUser = ''bob'',
                          call_isIncoming = False, call_timestamp = []\<rparr>,
       incomingCall = Some \<lparr>call_callId = ''c2'', call_chatId = ''chat2'', call_type = ''audio'',
       call_status = ''ringing'', call_otherUser = ''carol'', call_isIncoming = True,
       call_timestamp = []\<rparr>,
       error = None, requests = []\<rparr>
   \<and> handleIncomingCall (Some \<lparr>call_callId = ''c1'', call_chatId = ''chat1'', call_type = ''video'',
                          call_status = ''connected'', call_otherUser = ''bob'',
                          call_isIncoming = False, call_timestamp = []\<rparr>)
      \<lparr>activeCall = Some \<lparr>call_callId = ''c1'', call_chatId = ''chat1'', call_type = ''video'',
                          call_status = ''connected'', call_otherUser = ''bob'',
                          call_isIncoming = False, call_timestamp = []\<rparr>,
       incomingCall = None, error = None, requests = []\<rparr>
      \<lparr>call_callId = ''c2'', call_chatId = ''chat2'', call_type = ''audio'',
       call_status = ''ringing'', call_otherUser = ''carol'', call_isIncoming = True,
       call_timestamp = []\<rparr>
     = \<lparr>activeCall = Some \<lparr>call_callId = ''c1'', call_chatId = ''chat1'', call_type = ''video'',
                          call_status = ''connected'', call_otherUser = ''bob'',
                          call_isIncoming = False, call_timestamp = []\<rparr>,
       incomingCall = Some \<lparr>call_callId = ''c2'', call_chatId = ''chat2'', call_type = ''audio'',
       call_status = ''ringing'', call_otherUser = ''carol'', call_isIncoming = True,
       call_timestamp = []\<rparr>,
       error = None, requests = []\<rparr>
   \<and> \<not> renders_incoming_prompt
      \<lparr>activeCall = Some \<lparr>call_callId = ''c1'', call_chatId = ''chat1'', call_type = ''video'',
                          call_status = ''connected'', call_otherUser = ''bob'',
                          call_isIncoming = False, call_timestamp = []\<rparr>,
       incomingCall = Some \<lparr>call_callId = ''c2'', call_chatId = ''chat2'', call_type = ''audio'',
       call_status = ''ringing'', call_otherUser = ''carol'', call_isIncoming = True,
       call_timestamp = []\<rparr>,
       error = None, requests = []\<rparr>
   \<and> handleCallEnd
      \<lparr>activeCall = Some \<lparr>call_callId = ''c1'', call_chatId = ''chat1'', call_type = ''video'',
                          call_status = ''connected'', call_otherUser = ''bob'',
                          call_isIncoming = False, call_timestamp = []\<rparr>,
       incomingCall = Some \<lparr>call_callId = ''c2'', call_chatId = ''chat2'', call_type = ''audio'',
       call_status = ''ringing'', call_otherUser = ''carol'', call_isIncoming = True,
       call_timestamp = []\<rparr>,
       error = None, requests = []\<rparr>
     = \<lparr>activeCall = None, incomingCall = None, error = None, requests = []\<rparr>"
  by (simp add: handleIncomingCall_def renders_incoming_prompt_def handleCallEnd_def)

subsection \<open>Duplicate acceptance\<close>

text \<open>The Accept button exists only in a render without an active call, so the
  \<^verbatim>\<open>handleAcceptIncomingCall\<close> it is given has no active call in its closure.\<close>

lemma prompt_has_no_active_call:
  "renders_incoming_prompt p \<Longrightarrow> activeCall p = None \<and> incomingCall p \<noteq> None"
  by (simp add: renders_incoming_prompt_def split: option.splits)

text \<open>With the same call as active and as incoming call in its closure,
  \<^verbatim>\<open>handleAcceptIncomingCall\<close> makes no request; and \<^verbatim>\<open>handleIncomingCall\<close> sets the status
  only when the call is the active call of its closure.\<close>

lemma handleAcceptIncomingCall_same_call_in_closure:
  "call_callId c = call_callId i \<Longrightarrow>
     handleAcceptIncomingCall api (Some i) (Some c) p
       = p\<lparr>activeCall := set_connected (activeCall p), incomingCall := None\<rparr>"
  by (simp add: handleAcceptIncomingCall_def)

lemma handleIncomingCall_same_call_in_closure:
  "call_callId c = call_callId callData \<Longrightarrow> activeCall p = Some a \<Longrightarrow>
     handleIncomingCall (Some c) p callData
       = p\<lparr>activeCall := Some (a\<lparr>call_status := ''connected''\<rparr>)\<rparr>"
  by (simp add: handleIncomingCall_def set_connected_def)




section \<open>Properties of the call session\<close>

lemma perform_simps [simp]:
  "effects (perform s e) = effects s @ [e]"
  "peerConnectionRef (perform s e) = peerConnectionRef s"
  "pendingSignals (perform s e) = pendingSignals s"
  "localStreamRef (perform s e) = localStreamRef s"
  "screenStreamRef (perform s e) = screenStreamRef s"
  "callStatus (perform s e) = callStatus s"
  "vc_error (perform s e) = vc_error s"
  "connectionQuality (perform s e) = connectionQuality s"
  "qualityCheckIntervalRef (perform s e) = qualityCheckIntervalRef s"
  by (simp_all add: perform_def)

subsection \<open>Remote descriptions\<close>

text \<open>\<^verbatim>\<open>handleIncomingAnswer\<close> tests \<^verbatim>\<open>remoteDescription\<close>: with one set, an answer changes
  nothing.\<close>

lemma handleIncomingAnswer_already_set:
  "peerConnectionRef s = Some pc \<Longrightarrow> remoteDescription pc = Some r \<Longrightarrow> for_this_call cur s d \<Longrightarrow>
     handleIncomingAnswer en cp cur s d = s"
  by (simp add: handleIncomingAnswer_def split: option.splits)

text \<open>
  Claim C2. \<^verbatim>\<open>handleIncomingOffer\<close> has no such test. The same offer for call \<^verbatim>\<open>c1\<close>
  delivered twice to a freshly mounted callee: the first sets up the peer connection
  and negotiates, the second calls \<^verbatim>\<open>setRemoteDescription\<close> again and negotiates again.
\<close>

theorem repeated_offer_sets_remote_description_again:
  "effects
     (handleIncomingOfferEvent
        \<lparr>succeeds = (\<lambda>e. True), message = (\<lambda>e. []), userMedia = [0, 1],
         createdAnswer = ''answer'', stats = []\<rparr> Map.empty ''c1''
        (handleIncomingOfferEvent
           \<lparr>succeeds = (\<lambda>e. True), message = (\<lambda>e. []), userMedia = [0, 1],
            createdAnswer = ''answer'', stats = []\<rparr> Map.empty ''c1''
           (mount \<lparr>propCallId = Some ''c1'', incomingCallId = None, incomingOffer = None,
                   isIncoming = True, onCallEnd = True\<rparr>)
           \<lparr>callId = ''c1'', offer = Some ''offer'', answer = None, candidate = None\<rparr>)
        \<lparr>callId = ''c1'', offer = Some ''offer'', answer = None, candidate = None\<rparr>)
   = [NewPeerConnection, GetUserMedia, AddTrack 0, AddTrack 1,
      SetRemoteDescription ''offer'', CreateAnswer, SetLocalDescription ''answer'',
      ServiceSendAnswer ''c1'' ''answer'',
      SetRemoteDescription ''offer'', CreateAnswer, SetLocalDescription ''answer'',
      ServiceSendAnswer ''c1'' ''answer'']"
  by (simp add: handleIncomingOfferEvent_def for_this_call_def handleIncomingOffer_def
        handleIncomingOffer_try_def mount_def setupWebRTC_def processQueuedIceCandidates_def
        Let_def)

subsection \<open>Early ICE candidates\<close>

text \<open>
  Claim C3. A candidate for the current call that arrives while the component has no
  peer connection yet (mounted, \<^verbatim>\<open>setupWebRTC\<close> not yet run) is neither queued nor applied.
\<close>

theorem ice_candidate_without_peer_connection_is_discarded:
  "pendingSignals
     (handleIncomingIceCandidate ''c1''
        (mount \<lparr>propCallId = Some ''c1'', incomingCallId = None, incomingOffer = None,
                isIncoming = True, onCallEnd = True\<rparr>)
        \<lparr>callId = ''c1'', offer = None, answer = None, candidate = Some ''candidate 1''\<rparr>) ''c1''
     = None
   \<and> effects
     (handleIncomingIceCandidate ''c1''
        (mount \<lparr>propCallId = Some ''c1'', incomingCallId = None, incomingOffer = None,
                isIncoming = True, onCallEnd = True\<rparr>)
        \<lparr>callId = ''c1'', offer = None, answer = None, candidate = Some ''candidate 1''\<rparr>) = []"
  by (simp add: handleIncomingIceCandidate_def for_this_call_def mount_def)


text \<open>With a peer connection and no remote description the candidate is queued, but the
  effect that runs on the change of \<^verbatim>\<open>pendingSignals\<close> skips it and empties the queue.\<close>

lemma queued_candidate_is_dropped_by_the_effect:
  "pendingSignals
     (handleIncomingIceCandidate ''c1''
        (setupWebRTC \<lparr>succeeds = (\<lambda>e. True), message = (\<lambda>e. []), userMedia = [0, 1],
                      createdAnswer = ''answer'', stats = []\<rparr>
           (mount \<lparr>propCallId = Some ''c1'', incomingCallId = None, incomingOffer = None,
                   isIncoming = True, onCallEnd = True\<rparr>) ''c1'')
        \<lparr>callId = ''c1'', offer = None, answer = None, candidate = Some ''candidate 1''\<rparr>) ''c1''
     = Some [(''ice-candidate'',
              \<lparr>callId = ''c1'', offer = None, answer = None, candidate = Some ''candidate 1''\<rparr>)]
   \<and> pendingSignals
     (pendingSignalsEffect
        \<lparr>succeeds = (\<lambda>e. True), message = (\<lambda>e. []), userMedia = [0, 1],
         createdAnswer = ''answer'', stats = []\<rparr>
        \<lparr>propCallId = Some ''c1'', incomingCallId = None, incomingOffer = None,
         isIncoming = True, onCallEnd = True\<rparr>
        (handleIncomingIceCandidate ''c1''
           (setupWebRTC \<lparr>succeeds = (\<lambda>e. True), message = (\<lambda>e. []), userMedia = [0, 1],
                         createdAnswer = ''answer'', stats = []\<rparr>
              (mount \<lparr>propCallId = Some ''c1'', incomingCallId = None, incomingOffer = None,
                      isIncoming = True, onCallEnd = True\<rparr>) ''c1'')
           \<lparr>callId = ''c1'', offer = None, answer = None, candidate = Some ''candidate 1''\<rparr>)) ''c1''
     = Some []
   \<and> effects
     (pendingSignalsEffect
        \<lparr>succeeds = (\<lambda>e. True), message = (\<lambda>e. []), userMedia = [0, 1],
         createdAnswer = ''answer'', stats = []\<rparr>
        \<lparr>propCallId = Some ''c1'', incomingCallId = None, incomingOffer = None,
         isIncoming = True, onCallEnd = True\<rparr>
        (handleIncomingIceCandidate ''c1''
           (setupWebRTC \<lparr>succeeds = (\<lambda>e. True), message = (\<lambda>e. []), userMedia = [0, 1],
                         createdAnswer = ''answer'', stats = []\<rparr>
              (mount \<lparr>propCallId = Some ''c1'', incomingCallId = None, incomingOffer = None,
                      isIncoming = True, onCallEnd = True\<rparr>) ''c1'')
           \<lparr>callId = ''c1'', offer = None, answer = None, candidate = Some ''candidate 1''\<rparr>))
     = [NewPeerConnection, GetUserMedia, AddTrack 0, AddTrack 1]"
  by (simp add: handleIncomingIceCandidate_def for_this_call_def mount_def setupWebRTC_def
        queueSignal_def pendingSignalsEffect_def currentCallId_def truthy_def pending_step_def
        Let_def)

text \<open>Run on the current \<^verbatim>\<open>pendingSignals\<close>, \<^verbatim>\<open>processQueuedIceCandidates\<close> applies the queued
  candidates of the call in arrival order and leaves none of them queued.\<close>

lemma foldl_add_queued:
  "peerConnectionRef s = Some pc \<Longrightarrow>
     foldl add_queued s l
       = s\<lparr>effects := effects s @ map AddIceCandidate (List.map_filter (\<lambda>sg. candidate (snd sg)) l)\<rparr>"
proof (induction l arbitrary: s)
  case Nil
  then show ?case by simp
next
  case (Cons sg l)
  have "peerConnectionRef (add_queued s sg) = Some pc"
    using Cons.prems by (simp add: add_queued_def split: option.splits)
  from Cons.IH [OF this] show ?case
    using Cons.prems
    by (simp add: add_queued_def perform_def split: option.splits)
qed

lemma processQueuedIceCandidates_drains:
  assumes "peerConnectionRef s = Some pc"
  shows "effects (processQueuedIceCandidates (pendingSignals s) s cid)
           = effects s @ map AddIceCandidate
               (List.map_filter (\<lambda>sg. candidate (snd sg))
                  (filter (\<lambda>sg. fst sg = ''ice-candidate'')
                     (case pendingSignals s cid of None \<Rightarrow> [] | Some l \<Rightarrow> l)))"
    and "filter (\<lambda>sg. fst sg = ''ice-candidate'')
           (case pendingSignals (processQueuedIceCandidates (pendingSignals s) s cid) cid of
              None \<Rightarrow> [] | Some l \<Rightarrow> l) = []"
  using assms
  by (auto simp add: processQueuedIceCandidates_def Let_def foldl_add_queued [OF assms]
        filter_empty_conv split: option.splits)

subsection \<open>Connection quality\<close>

lemma quality_of_finite:
  "quality_of (Fin loss) (Fin bitrate) = tier_name (spec_tier loss bitrate)"
  by (simp add: quality_of_def spec_tier_def js_greater_def)

lemma quality_of_NaN:
  "quality_of NaN bitrate = ''poor''" "quality_of loss NaN = ''poor''"
  by (simp_all add: quality_of_def js_greater_def)

text \<open>A tick does nothing unless the peer connection is connected.\<close>

lemma qualityCheck_not_connected:
  "peerConnectionRef s = Some pc \<Longrightarrow> connectionState pc \<noteq> ''connected'' \<Longrightarrow>
     qualityCheck en s = s"
  "peerConnectionRef s = None \<Longrightarrow> qualityCheck en s = s"
  by (simp_all add: qualityCheck_def)

text \<open>When the media engine reports \<^verbatim>\<open>connected\<close>, the call becomes connected and the
  monitor is started with a period of 5000 ms.\<close>

lemma connected_starts_quality_monitor:
  "peerConnectionRef s = Some pc \<Longrightarrow>
     callStatus (onconnectionstatechange s ''connected'') = ''connected''
     \<and> qualityCheckIntervalRef (onconnectionstatechange s ''connected'') = Some 5000"
  by (simp add: onconnectionstatechange_def startQualityMonitoring_def Let_def)

text \<open>The sample of a tick whose statistics hold one video report: the video figure is
  all bytes received so far, as kilobits; the loss is the share of all packets so far.
  The tier is that of the specification at these two numbers.\<close>

lemma stats_forEach_one_video_report:
  "r + l \<noteq> 0 \<Longrightarrow>
     stats_forEach [\<lparr>report_type = ''inbound-rtp'', mediaType = ''video'',
                     bytesReceived = Fin b, packetsReceived = Fin r, packetsLost = Fin l\<rparr>]
       = (Fin (b * 8 / 1000), Fin 0, Fin (l / (r + l) * 100))"
  by (simp add: stats_forEach_def stats_step_def js_times_def js_divide_def js_plus_def)

lemma qualityCheck_one_video_report:
  assumes "peerConnectionRef s = Some pc" and "connectionState pc = ''connected''"
    and "succeeds en GetStats" and "r + l \<noteq> 0"
    and "stats en = [\<lparr>report_type = ''inbound-rtp'', mediaType = ''video'',
                       bytesReceived = Fin b, packetsReceived = Fin r, packetsLost = Fin l\<rparr>]"
  shows "connectionQuality (qualityCheck en s)
           = tier_name (spec_tier (l / (r + l) * 100) (b * 8 / 1000))"
  using assms
  by (simp add: qualityCheck_def Let_def stats_forEach_one_video_report quality_of_finite)

text \<open>
  Claim C8. The number the tick compares with 500, 300 and 200 is not a bitrate: it is
  \<^verbatim>\<open>bytesReceived * 8 / 1000\<close>, the kilobits received since the start of the call (the
  source comments it as kbps). A video stream of a steady 50 kbit/s without loss is
  below every bitrate threshold of the claim, so its tier is poor; the tick sets fair
  at the first sample, 5 s into the call (31250 bytes), and excellent at 120 s
  (750000 bytes).
\<close>

theorem cumulative_kilobits_are_tiered_as_bitrate:
  "spec_bitrate_kbps 31250 5 = 50 \<and> spec_bitrate_kbps 750000 120 = 50
   \<and> tier_name (spec_tier 0 50) = ''poor''
   \<and> connectionQuality
       (qualityCheck
          \<lparr>succeeds = (\<lambda>e. True), message = (\<lambda>e. []), userMedia = [0, 1],
         createdAnswer = ''answer'',
         stats = [\<lparr>report_type = ''inbound-rtp'', mediaType = ''video'',
                   bytesReceived = Fin 31250, packetsReceived = Fin 250,
                   packetsLost = Fin 0\<rparr>]\<rparr>
          (onconnectionstatechange
           (setupWebRTC \<lparr>succeeds = (\<lambda>e. True), message = (\<lambda>e. []), userMedia = [0, 1],
                         createdAnswer = ''answer'', stats = []\<rparr>
              (mount \<lparr>propCallId = Some ''c1'', incomingCallId = None, incomingOffer = None,
                      isIncoming = False, onCallEnd = True\<rparr>) ''c1'')
           ''connected'')) = ''fair''
   \<and> connectionQuality
       (qualityCheck
          \<lparr>succeeds = (\<lambda>e. True), message = (\<lambda>e. []), userMedia = [0, 1],
         createdAnswer = ''answer'',
         stats = [\<lparr>report_type = ''inbound-rtp'', mediaType = ''video'',
                   bytesReceived = Fin 750000, packetsReceived = Fin 6000,
                   packetsLost = Fin 0\<rparr>]\<rparr>
          (onconnectionstatechange
           (setupWebRTC \<lparr>succeeds = (\<lambda>e. True), message = (\<lambda>e. []), userMedia = [0, 1],
                         createdAnswer = ''answer'', stats = []\<rparr>
              (mount \<lparr>propCallId = Some ''c1'', incomingCallId = None, incomingOffer = None,
                      isIncoming = False, onCallEnd = True\<rparr>) ''c1'')
           ''connected'')) = ''excellent''"
  by (simp add: spec_bitrate_kbps_def spec_tier_def qualityCheck_def
        onconnectionstatechange_def setupWebRTC_def mount_def Let_def
        startQualityMonitoring_def stats_forEach_def stats_step_def js_times_def
        js_divide_def js_plus_def quality_of_def js_greater_def)

subsection \<open>Ending and rejecting\<close>

lemma stop_tracks_eq: "stop_tracks s ts = s\<lparr>effects := effects s @ map StopTrack ts\<rparr>"
  unfolding stop_tracks_def
  by (induction ts arbitrary: s) (simp_all add: perform_def)

lemma cleanup_fields:
  "localStreamRef (cleanup s) = None"
  "screenStreamRef (cleanup s) = None"
  "peerConnectionRef (cleanup s) = None"
  "qualityCheckIntervalRef (cleanup s) = None"
  "durationIntervalRef (cleanup s) = None"
  "callStatus (cleanup s) = callStatus s"
  "effects (cleanup s)
     = effects s @ map StopTrack (case localStreamRef s of None \<Rightarrow> [] | Some ts \<Rightarrow> ts)
         @ map StopTrack (case screenStreamRef s of None \<Rightarrow> [] | Some ts \<Rightarrow> ts)
         @ (case peerConnectionRef s of None \<Rightarrow> [] | Some pc \<Rightarrow> [ClosePeer])"
  by (simp_all add: cleanup_def stop_tracks_eq perform_def Let_def split: option.splits)

text \<open>What \<^verbatim>\<open>endCall\<close> and \<^verbatim>\<open>rejectCall\<close> do, whether the request to the call service
  succeeds or throws: \<^verbatim>\<open>endCall\<close> sets the status to ended, stops the tracks of the
  local and the screen stream, closes and releases the peer connection and then calls
  \<^verbatim>\<open>onCallEnd\<close> if the parent passed one; \<^verbatim>\<open>rejectCall\<close> sets the status to rejected and
  calls \<^verbatim>\<open>onCallEnd\<close> if the parent passed one, and nothing else.\<close>

lemma endCall_and_rejectCall_effects:
  "callStatus (endCall en pr s) = ''ended''
   \<and> localStreamRef (endCall en pr s) = None
   \<and> screenStreamRef (endCall en pr s) = None
   \<and> peerConnectionRef (endCall en pr s) = None
   \<and> effects (endCall en pr s)
       = effects s
         @ (if truthy (currentCallId pr)
            then (case currentCallId pr of Some cur \<Rightarrow> [ServiceEndCall cur ''user_ended''] | None \<Rightarrow> [])
            else [])
         @ map StopTrack (case localStreamRef s of None \<Rightarrow> [] | Some ts \<Rightarrow> ts)
         @ map StopTrack (case screenStreamRef s of None \<Rightarrow> [] | Some ts \<Rightarrow> ts)
         @ (case peerConnectionRef s of None \<Rightarrow> [] | Some pc \<Rightarrow> [ClosePeer])
         @ (if onCallEnd pr then [OnCallEnd] else [])
   \<and> callStatus (rejectCall en pr s) = ''rejected''
   \<and> localStreamRef (rejectCall en pr s) = localStreamRef s
   \<and> peerConnectionRef (rejectCall en pr s) = peerConnectionRef s
   \<and> effects (rejectCall en pr s)
       = effects s
         @ (if truthy (currentCallId pr)
            then (case currentCallId pr of Some cur \<Rightarrow> [ServiceRejectCall cur ''User rejected''] | None \<Rightarrow> [])
            else [])
         @ (if onCallEnd pr then [OnCallEnd] else [])"
  by (simp add: endCall_def rejectCall_def cleanup_fields Let_def truthy_def split: option.splits)

text \<open>After \<^verbatim>\<open>rejectCall\<close> the media is released only if the component is unmounted, which
  the page does when it is told through \<^verbatim>\<open>onCallEnd\<close>.\<close>

lemma unmount_after_rejectCall:
  "localStreamRef (unmount (rejectCall en pr s)) = None
   \<and> peerConnectionRef (unmount (rejectCall en pr s)) = None
   \<and> callStatus (unmount (rejectCall en pr s)) = ''rejected''"
  by (simp add: unmount_def cleanup_fields endCall_and_rejectCall_effects)

text \<open>A session that fails does not tell the parent: the active call of the page
  stays.\<close>

lemma failed_session_does_not_notify_parent:
  "effects (onconnectionstatechange s ''failed'') = effects s
   \<and> effects (onconnectionstatechange s ''disconnected'') = effects s"
  by (simp add: onconnectionstatechange_def Let_def split: option.splits)

text \<open>
  Claim C10. \<^verbatim>\<open>rejectCall\<close> never calls \<^verbatim>\<open>cleanup\<close>. An incoming call \<^verbatim>\<open>c1\<close> whose local
  stream and peer connection are set up is rejected and the reject request fails: the
  status becomes rejected and \<^verbatim>\<open>onCallEnd\<close> is called, but when \<^verbatim>\<open>rejectCall\<close> returns no
  track has been stopped and the peer connection is still held and open; without an
  \<^verbatim>\<open>onCallEnd\<close> from the parent nothing else follows. \<^verbatim>\<open>endCall\<close> on the same session stops
  both tracks and closes and releases the peer connection.
\<close>

theorem rejectCall_does_not_release_media:
  "effects
     (rejectCall \<lparr>succeeds = (\<lambda>e. False), message = (\<lambda>e. ''Network Error''), userMedia = [],
                  createdAnswer = [], stats = []\<rparr>
        \<lparr>propCallId = Some ''c1'', incomingCallId = None, incomingOffer = None,
         isIncoming = True, onCallEnd = True\<rparr>
        (setupWebRTC \<lparr>succeeds = (\<lambda>e. True), message = (\<lambda>e. []), userMedia = [0, 1],
                      createdAnswer = ''answer'', stats = []\<rparr>
           (mount \<lparr>propCallId = Some ''c1'', incomingCallId = None, incomingOffer = None,
         isIncoming = True, onCallEnd = True\<rparr>) ''c1''))
     = [NewPeerConnection, GetUserMedia, AddTrack 0, AddTrack 1,
        ServiceRejectCall ''c1'' ''User rejected'', OnCallEnd]
   \<and> localStreamRef
     (rejectCall \<lparr>succeeds = (\<lambda>e. False), message = (\<lambda>e. ''Network Error''), userMedia = [],
                  createdAnswer = [], stats = []\<rparr>
        \<lparr>propCallId = Some ''c1'', incomingCallId = None, incomingOffer = None,
         isIncoming = True, onCallEnd = True\<rparr>
        (setupWebRTC \<lparr>succeeds = (\<lambda>e. True), message = (\<lambda>e. []), userMedia = [0, 1],
                      createdAnswer = ''answer'', stats = []\<rparr>
           (mount \<lparr>propCallId = Some ''c1'', incomingCallId = None, incomingOffer = None,
         isIncoming = True, onCallEnd = True\<rparr>) ''c1'')) = Some [0, 1]
   \<and> peerConnectionRef
     (rejectCall \<lparr>succeeds = (\<lambda>e. False), message = (\<lambda>e. ''Network Error''), userMedia = [],
                  createdAnswer = [], stats = []\<rparr>
        \<lparr>propCallId = Some ''c1'', incomingCallId = None, incomingOffer = None,
         isIncoming = True, onCallEnd = True\<rparr>
        (setupWebRTC \<lparr>succeeds = (\<lambda>e. True), message = (\<lambda>e. []), userMedia = [0, 1],
                      createdAnswer = ''answer'', stats = []\<rparr>
           (mount \<lparr>propCallId = Some ''c1'', incomingCallId = None, incomingOffer = None,
         isIncoming = True, onCallEnd = True\<rparr>) ''c1''))
     = Some \<lparr>remoteDescription = None, localDescription = None, connectionState = ''new''\<rparr>
   \<and> effects
     (rejectCall \<lparr>succeeds = (\<lambda>e. False), message = (\<lambda>e. ''Network Error''), userMedia = [],
                  createdAnswer = [], stats = []\<rparr>
        \<lparr>propCallId = Some ''c1'', incomingCallId = None, incomingOffer = None,
         isIncoming = True, onCallEnd = False\<rparr>
        (setupWebRTC \<lparr>succeeds = (\<lambda>e. True), message = (\<lambda>e. []), userMedia = [0, 1],
                      createdAnswer = ''answer'', stats = []\<rparr>
           (mount \<lparr>propCallId = Some ''c1'', incomingCallId = None, incomingOffer = None,
         isIncoming = True, onCallEnd = True\<rparr>) ''c1''))
     = [NewPeerConnection, GetUserMedia, AddTrack 0, AddTrack 1,
        ServiceRejectCall ''c1'' ''User rejected'']
   \<and> localStreamRef
     (rejectCall \<lparr>succeeds = (\<lambda>e. False), message = (\<lambda>e. ''Network Error''), userMedia = [],
                  createdAnswer = [], stats = []\<rparr>
        \<lparr>propCallId = Some ''c1'', incomingCallId = None, incomingOffer = None,
         isIncoming = True, onCallEnd = False\<rparr>
        (setupWebRTC \<lparr>succeeds = (\<lambda>e. True), message = (\<lambda>e. []), userMedia = [0, 1],
                      createdAnswer = ''answer'', stats = []\<rparr>
           (mount \<lparr>propCallId = Some ''c1'', incomingCallId = None, incomingOffer = None,
         isIncoming = True, onCallEnd = True\<rparr>) ''c1'')) = Some [0, 1]
   \<and> effects
     (endCall \<lparr>succeeds = (\<lambda>e. False), message = (\<lambda>e. ''Network Error''), userMedia = [],
                  createdAnswer = [], stats = []\<rparr>
        \<lparr>propCallId = Some ''c1'', incomingCallId = None, incomingOffer = None,
         isIncoming = True, onCallEnd = True\<rparr>
        (setupWebRTC \<lparr>succeeds = (\<lambda>e. True), message = (\<lambda>e. []), userMedia = [0, 1],
                      createdAnswer = ''answer'', stats = []\<rparr>
           (mount \<lparr>propCallId = Some ''c1'', incomingCallId = None, incomingOffer = None,
         isIncoming = True, onCallEnd = True\<rparr>) ''c1''))
     = [NewPeerConnection, GetUserMedia, AddTrack 0, AddTrack 1,
        ServiceEndCall ''c1'' ''user_ended'', StopTrack 0, StopTrack 1, ClosePeer, OnCallEnd]
   \<and> localStreamRef
     (endCall \<lparr>succeeds = (\<lambda>e. False), message = (\<lambda>e. ''Network Error''), userMedia = [],
                  createdAnswer = [], stats = []\<rparr>
        \<lparr>propCallId = Some ''c1'', incomingCallId = None, incomingOffer = None,
         isIncoming = True, onCallEnd = True\<rparr>
        (setupWebRTC \<lparr>succeeds = (\<lambda>e. True), message = (\<lambda>e. []), userMedia = [0, 1],
                      createdAnswer = ''answer'', stats = []\<rparr>
           (mount \<lparr>propCallId = Some ''c1'', incomingCallId = None, incomingOffer = None,
         isIncoming = True, onCallEnd = True\<rparr>) ''c1'')) = None
   \<and> peerConnectionRef
     (endCall \<lparr>succeeds = (\<lambda>e. False), message = (\<lambda>e. ''Network Error''), userMedia = [],
                  createdAnswer = [], stats = []\<rparr>
        \<lparr>propCallId = Some ''c1'', incomingCallId = None, incomingOffer = None,
         isIncoming = True, onCallEnd = True\<rparr>
        (setupWebRTC \<lparr>succeeds = (\<lambda>e. True), message = (\<lambda>e. []), userMedia = [0, 1],
                      createdAnswer = ''answer'', stats = []\<rparr>
           (mount \<lparr>propCallId = Some ''c1'', incomingCallId = None, incomingOffer = None,
         isIncoming = True, onCallEnd = True\<rparr>) ''c1'')) = None"
  by (simp add: rejectCall_def endCall_def cleanup_def stop_tracks_eq setupWebRTC_def mount_def
        currentCallId_def truthy_def Let_def)

end
